theory Spec2Isabelle
  imports Complex_Main "HOL-Library.Sublist" "HOL-Library.Code_Target_Nat"
begin

section \<open>Text: code points, the Unicode tables and the string operations\<close>

text \<open>
  A Python \<open>str\<close> is a sequence of Unicode code points. \<open>ustr\<close> writes an ASCII
  literal as such a sequence; other characters are given by their code point
  (\<open>0xE7\<close> is c with cedilla, \<open>0xE3\<close> is a with tilde, \<open>0xE9\<close> is e with acute).
\<close>

type_synonym codepoint = nat
type_synonym ustring = "codepoint list"

definition ustr :: "string \<Rightarrow> ustring" where
  "ustr s = map of_char s"

text \<open>
  \<open>normalize_text\<close> and \<open>extract_price\<close> read the Unicode character database through
  \<open>unicodedata\<close>, \<open>str.lower\<close>, \<open>str.strip\<close> and \<open>re\<close>. The database is not part of
  the repository, so the functions below take it as a parameter \<open>U\<close>:
  \<^item> \<open>decomposition U c\<close>: the full canonical decomposition of \<open>c\<close> (\<open>[c]\<close> when it has none);
  \<^item> \<open>combining U c\<close>: the canonical combining class, \<open>unicodedata.combining\<close>;
  \<^item> \<open>category_Mn U c\<close>: \<open>unicodedata.category(c) == 'Mn'\<close>;
  \<^item> \<open>lower_full U c\<close>: the lower-case mapping of one code point;
  \<^item> \<open>cased\<close>, \<open>case_ignorable\<close>: the two properties \<open>str.lower\<close> consults around a
    capital sigma;
  \<^item> \<open>whitespace U c\<close>: \<open>c.isspace()\<close>, which is also the class \<open>\s\<close> of \<open>re\<close>;
  \<^item> \<open>decimal U c\<close>: the digit value of a character of category Nd (the class \<open>\d\<close>);
  \<^item> \<open>ignorecase_eq U p c\<close>: the text character \<open>c\<close> matches the pattern literal \<open>p\<close>
    under \<open>re.IGNORECASE\<close>.
\<close>

record ucd =
  decomposition :: "codepoint \<Rightarrow> codepoint list"
  combining :: "codepoint \<Rightarrow> nat"
  category_Mn :: "codepoint \<Rightarrow> bool"
  lower_full :: "codepoint \<Rightarrow> codepoint list"
  cased :: "codepoint \<Rightarrow> bool"
  case_ignorable :: "codepoint \<Rightarrow> bool"
  whitespace :: "codepoint \<Rightarrow> bool"
  decimal :: "codepoint \<Rightarrow> nat option"
  ignorecase_eq :: "codepoint \<Rightarrow> codepoint \<Rightarrow> bool"

text \<open>\<open>needle in text\<close> on strings: \<open>needle\<close> occurs as a contiguous run.\<close>

definition str_in :: "ustring \<Rightarrow> ustring \<Rightarrow> bool" where
  "str_in needle text = sublist needle text"

text \<open>
  \<open>unicodedata.normalize('NFD', text)\<close>: every code point is replaced by its canonical
  decomposition, then combining marks are put in canonical order by an insertion sort
  that never moves a mark across a code point of combining class 0. \<open>place\<close> inserts
  one code point into the output built so far, which is kept reversed.
\<close>

fun place :: "ucd \<Rightarrow> codepoint \<Rightarrow> codepoint list \<Rightarrow> codepoint list" where
  "place U c [] = [c]"
| "place U c (p # ps) =
     (if combining U c \<noteq> 0 \<and> combining U c < combining U p
      then p # place U c ps else c # p # ps)"

definition canonical_order :: "ucd \<Rightarrow> ustring \<Rightarrow> ustring" where
  "canonical_order U s = rev (foldl (\<lambda>out c. place U c out) [] s)"

definition nfd :: "ucd \<Rightarrow> ustring \<Rightarrow> ustring" where
  "nfd U s = canonical_order U (concat (map (decomposition U) s))"

text \<open>
  \<open>str.lower()\<close> maps every code point through \<open>lower_full\<close>, except the capital sigma
  U+03A3, which becomes the final sigma U+03C2 when it ends a word and U+03C3 otherwise.
  \<open>seen\<close> is the text before the sigma, nearest code point first.
\<close>

definition handle_capital_sigma :: "ucd \<Rightarrow> ustring \<Rightarrow> ustring \<Rightarrow> codepoint" where
  "handle_capital_sigma U seen rest =
     (let final_sigma =
            (case dropWhile (case_ignorable U) seen of
               [] \<Rightarrow> False
             | c # _ \<Rightarrow> cased U c \<and>
                 (case dropWhile (case_ignorable U) rest of
                    [] \<Rightarrow> True
                  | d # _ \<Rightarrow> \<not> cased U d))
      in if final_sigma then 0x3C2 else 0x3C3)"

fun lower_from :: "ucd \<Rightarrow> ustring \<Rightarrow> ustring \<Rightarrow> ustring" where
  "lower_from U seen [] = []"
| "lower_from U seen (c # rest) =
     (if c = 0x3A3 then [handle_capital_sigma U seen rest] else lower_full U c)
     @ lower_from U (c # seen) rest"

definition py_lower :: "ucd \<Rightarrow> ustring \<Rightarrow> ustring" where
  "py_lower U s = lower_from U [] s"

text \<open>\<open>str.strip()\<close>: leading and trailing whitespace is removed.\<close>

definition py_strip :: "ucd \<Rightarrow> ustring \<Rightarrow> ustring" where
  "py_strip U s = rev (dropWhile (whitespace U) (rev (dropWhile (whitespace U) s)))"

text \<open>
  \<open>normalize_text\<close> (main.py). \<open>None\<close> is Python's \<open>None\<close>; it and the empty string are
  the two falsy arguments of \<open>if not text\<close>.
\<close>

fun normalize_text :: "ucd \<Rightarrow> ustring option \<Rightarrow> ustring" where
  "normalize_text U None = []"
| "normalize_text U (Some text) =
     (if text = [] then []
      else py_strip U (py_lower U (filter (\<lambda>c. \<not> category_Mn U c) (nfd U text))))"

subsection \<open>A fragment of the Unicode character database\<close>

text \<open>
  The entries of the database for U+0000 to U+00FF (Basic Latin and Latin-1 Supplement),
  for the seven combining marks their decompositions produce, and for U+034F
  (combining grapheme joiner: category Mn, class 0), U+1D165 (musical stem: category Mc,
  class 216) and U+1D16D (musical augmentation dot: category Mc, class 226). The concrete
  evaluations below use only these code points; on any other code point the fragment
  answers with a default and is not to be relied on.
\<close>

definition latin1_decomposition :: "(codepoint \<times> codepoint list) list" where
  "latin1_decomposition =
    [(0xC0, [0x41, 0x300]), (0xC1, [0x41, 0x301]), (0xC2, [0x41, 0x302]), (0xC3, [0x41, 0x303]),
     (0xC4, [0x41, 0x308]), (0xC5, [0x41, 0x30A]), (0xC7, [0x43, 0x327]), (0xC8, [0x45, 0x300]),
     (0xC9, [0x45, 0x301]), (0xCA, [0x45, 0x302]), (0xCB, [0x45, 0x308]), (0xCC, [0x49, 0x300]),
     (0xCD, [0x49, 0x301]), (0xCE, [0x49, 0x302]), (0xCF, [0x49, 0x308]), (0xD1, [0x4E, 0x303]),
     (0xD2, [0x4F, 0x300]), (0xD3, [0x4F, 0x301]), (0xD4, [0x4F, 0x302]), (0xD5, [0x4F, 0x303]),
     (0xD6, [0x4F, 0x308]), (0xD9, [0x55, 0x300]), (0xDA, [0x55, 0x301]), (0xDB, [0x55, 0x302]),
     (0xDC, [0x55, 0x308]), (0xDD, [0x59, 0x301]), (0xE0, [0x61, 0x300]), (0xE1, [0x61, 0x301]),
     (0xE2, [0x61, 0x302]), (0xE3, [0x61, 0x303]), (0xE4, [0x61, 0x308]), (0xE5, [0x61, 0x30A]),
     (0xE7, [0x63, 0x327]), (0xE8, [0x65, 0x300]), (0xE9, [0x65, 0x301]), (0xEA, [0x65, 0x302]),
     (0xEB, [0x65, 0x308]), (0xEC, [0x69, 0x300]), (0xED, [0x69, 0x301]), (0xEE, [0x69, 0x302]),
     (0xEF, [0x69, 0x308]), (0xF1, [0x6E, 0x303]), (0xF2, [0x6F, 0x300]), (0xF3, [0x6F, 0x301]),
     (0xF4, [0x6F, 0x302]), (0xF5, [0x6F, 0x303]), (0xF6, [0x6F, 0x308]), (0xF9, [0x75, 0x300]),
     (0xFA, [0x75, 0x301]), (0xFB, [0x75, 0x302]), (0xFC, [0x75, 0x308]), (0xFD, [0x79, 0x301]),
     (0xFF, [0x79, 0x308])]"

definition latin1_lower :: "codepoint \<Rightarrow> codepoint" where
  "latin1_lower c =
     (if (0x41 \<le> c \<and> c \<le> 0x5A) \<or> (0xC0 \<le> c \<and> c \<le> 0xDE \<and> c \<noteq> 0xD7)
      then c + 0x20 else c)"

definition fragment_marks :: "codepoint list" where
  "fragment_marks = [0x300, 0x301, 0x302, 0x303, 0x308, 0x30A, 0x327, 0x34F]"

definition ucd_fragment :: ucd where
  "ucd_fragment =
    \<lparr> decomposition = (\<lambda>c. case map_of latin1_decomposition c of None \<Rightarrow> [c] | Some d \<Rightarrow> d),
      combining = (\<lambda>c. if c = 0x327 then 202
                        else if c \<in> set [0x300, 0x301, 0x302, 0x303, 0x308, 0x30A] then 230
                        else if c = 0x1D165 then 216
                        else if c = 0x1D16D then 226 else 0),
      category_Mn = (\<lambda>c. c \<in> set fragment_marks),
      lower_full = (\<lambda>c. [latin1_lower c]),
      cased = (\<lambda>c. (0x41 \<le> c \<and> c \<le> 0x5A) \<or> (0x61 \<le> c \<and> c \<le> 0x7A)
                     \<or> c \<in> set [0xAA, 0xB5, 0xBA]
                     \<or> (0xC0 \<le> c \<and> c \<le> 0xFF \<and> c \<noteq> 0xD7 \<and> c \<noteq> 0xF7)),
      case_ignorable = (\<lambda>c. c \<in> set ([0x27, 0x2E, 0x3A, 0x5E, 0x60, 0xA8, 0xAD, 0xAF, 0xB4,
                                         0xB7, 0xB8] @ fragment_marks)),
      whitespace = (\<lambda>c. c \<in> set [0x9, 0xA, 0xB, 0xC, 0xD, 0x1C, 0x1D, 0x1E, 0x1F, 0x20, 0x85, 0xA0]),
      decimal = (\<lambda>c. if 0x30 \<le> c \<and> c \<le> 0x39 then Some (c - 0x30) else None),
      ignorecase_eq = (\<lambda>p c. latin1_lower c = latin1_lower p) \<rparr>"

subsection \<open>Code points that a pass of the normalizer leaves alone\<close>

text \<open>
  A code point is \<open>settled\<close> when a pass of \<open>normalize_text\<close> leaves it alone: it has no
  decomposition, combining class 0, is not a nonspacing mark and is its own lower case.
  \<open>lowered U d\<close> lists what \<open>str.lower\<close> can turn \<open>d\<close> into. \<open>settles U c\<close>: whatever one
  pass makes of \<open>c\<close> is settled.
\<close>

definition settled :: "ucd \<Rightarrow> codepoint \<Rightarrow> bool" where
  "settled U c \<longleftrightarrow>
     decomposition U c = [c] \<and> combining U c = 0 \<and> \<not> category_Mn U c \<and>
     c \<noteq> 0x3A3 \<and> lower_full U c = [c]"

definition lowered :: "ucd \<Rightarrow> codepoint \<Rightarrow> codepoint list" where
  "lowered U d = (if d = 0x3A3 then [0x3C2, 0x3C3] else lower_full U d)"

definition settles :: "ucd \<Rightarrow> codepoint \<Rightarrow> bool" where
  "settles U c \<longleftrightarrow>
     list_all (\<lambda>d. category_Mn U d \<or> list_all (settled U) (lowered U d)) (decomposition U c)"

section \<open>The filter configuration and the posts\<close>

text \<open>
  \<open>filters_config\<close> is the dictionary loaded from \<open>filters.yml\<close>. Every key may be
  absent, and the code reads each with \<open>dict.get(key, default)\<close>: a field is \<open>None\<close> when
  its key is absent, and \<open>dict_get\<close> supplies the default.
\<close>

definition dict_get :: "'a option \<Rightarrow> 'a \<Rightarrow> 'a" where
  "dict_get entry dflt = (case entry of None \<Rightarrow> dflt | Some v \<Rightarrow> v)"

record routes_config =
  routes_enabled :: "bool option"
  routes_include :: "ustring list option"
  routes_exclude :: "ustring list option"

record keywords_config =
  keywords_enabled :: "bool option"
  miles_keywords :: "ustring list option"

record price_config =
  price_enabled :: "bool option"
  domestic_max :: "real option"
  international_max :: "real option"

record airlines_config =
  airlines_enabled :: "bool option"
  airlines_include :: "ustring list option"
  airlines_exclude :: "ustring list option"

record advanced_config =
  log_rejected_posts :: "bool option"

record filters_config =
  enabled :: "bool option"
  routes_section :: "routes_config option"
  keywords_section :: "keywords_config option"
  price_section :: "price_config option"
  airlines_section :: "airlines_config option"
  advanced_section :: "advanced_config option"


definition no_keywords :: keywords_config where
  "no_keywords = \<lparr> keywords_enabled = None, miles_keywords = None \<rparr>"


definition no_airlines :: airlines_config where
  "no_airlines = \<lparr> airlines_enabled = None, airlines_include = None, airlines_exclude = None \<rparr>"

definition no_advanced :: advanced_config where
  "no_advanced = \<lparr> log_rejected_posts = None \<rparr>"

text \<open>A post is a dictionary too; the filters read three of its keys.\<close>

record post =
  post_title :: "ustring option"
  post_summary :: "ustring option"
  post_feed_name :: "ustring option"

text \<open>The f-string \<open>f"{title} {summary}"\<close>.\<close>

definition title_and_summary :: "ustring \<Rightarrow> ustring \<Rightarrow> ustring" where
  "title_and_summary t s = t @ ustr '' '' @ s"

section \<open>The keyword predicate\<close>

text \<open>
  \<open>check_keyword_filter\<close> (main.py). The three local variables \<open>has_recife\<close>,
  \<open>has_passagem_terms\<close> and \<open>has_miles_terms\<close> are functions of the normalized text.
  \<open>padded\<close> is the f-string \<open>f" {normalized_text} "\<close>.
\<close>

definition padded :: "ustring \<Rightarrow> ustring" where
  "padded normalized_text = ustr '' '' @ normalized_text @ ustr '' ''"

definition has_recife :: "ucd \<Rightarrow> ustring \<Rightarrow> bool" where
  "has_recife U normalized_text \<longleftrightarrow>
     str_in (normalize_text U (Some (ustr ''recife''))) normalized_text \<or>
     str_in (normalize_text U (Some (ustr ''pernambuco''))) normalized_text \<or>
     str_in (ustr '' rec '') (padded normalized_text) \<or>
     str_in (ustr ''-rec '') normalized_text \<or>
     str_in (ustr '' rec-'') normalized_text \<or>
     str_in (ustr ''rec.'') normalized_text \<or>
     str_in (ustr ''gru-rec'') normalized_text \<or>
     str_in (ustr ''sp-rec'') normalized_text \<or>
     str_in (ustr '' pe '') (padded normalized_text) \<or>
     str_in (ustr ''sp-pe'') normalized_text \<or>
     str_in (ustr ''para pe '') (padded normalized_text) \<or>
     str_in (ustr ''destino pe'') normalized_text \<or>
     str_in (ustr ''rumo pe'') normalized_text"

definition passagem_terms :: "ucd \<Rightarrow> ustring list" where
  "passagem_terms U =
     [normalize_text U (Some (ustr ''passagem'')),
      normalize_text U (Some (ustr ''passagens'')),
      normalize_text U (Some (ustr ''voo'')),
      normalize_text U (Some (ustr ''voos'')),
      normalize_text U (Some (ustr ''viagem'')),
      normalize_text U (Some (ustr ''viagens'')),
      normalize_text U (Some (ustr ''azul'')),
      normalize_text U (Some (ustr ''gol'')),
      normalize_text U (Some (ustr ''latam'')),
      normalize_text U (Some (ustr ''guarulhos'')),
      normalize_text U (Some (ustr ''congonhas'')),
      ustr ''gru'',
      ustr ''cgh'',
      normalize_text U (Some (ustr ''voar'')),
      normalize_text U (Some (ustr ''aereo'')),
      normalize_text U (Some (ustr ''aerea'')),
      normalize_text U (Some (ustr ''aereas'')),
      normalize_text U (Some (ustr ''bilhete'')),
      normalize_text U (Some (ustr ''bilhetes''))]"

definition has_passagem_terms :: "ucd \<Rightarrow> ustring \<Rightarrow> bool" where
  "has_passagem_terms U normalized_text \<longleftrightarrow>
     list_ex (\<lambda>term. str_in term normalized_text) (passagem_terms U)"

definition has_miles_terms :: "ucd \<Rightarrow> keywords_config \<Rightarrow> ustring \<Rightarrow> bool" where
  "has_miles_terms U keywords_config normalized_text \<longleftrightarrow>
     list_ex (\<lambda>term. str_in (normalize_text U (Some term)) normalized_text)
       (dict_get (miles_keywords keywords_config) [])"

definition check_keyword_filter :: "ucd \<Rightarrow> filters_config \<Rightarrow> ustring \<Rightarrow> ustring \<Rightarrow> bool" where
  "check_keyword_filter U filters_config title summary =
     (let keywords_config = dict_get (keywords_section filters_config) no_keywords in
      if \<not> dict_get (keywords_enabled keywords_config) False then True
      else
        let full_text = py_lower U (title_and_summary title summary);
            normalized_text = normalize_text U (Some full_text)
        in has_recife U normalized_text \<and>
           (has_passagem_terms U normalized_text \<or> has_miles_terms U keywords_config normalized_text))"

section \<open>The relevance filter\<close>

text \<open>
  \<open>apply_filters\<close> (main.py) returns the decision and, as its side effect, prints
  notices about rejected posts and counts them per feed in the attribute
  \<open>_rejected_count_per_feed\<close>, which does not exist before the first logged rejection.
  The state passed through holds that attribute and the lines printed so far.
\<close>

datatype printed_line = Post_filtered_out | Title_line ustring | More_rejected

record monitor_state =
  rejected_count_per_feed :: "(ustring \<rightharpoonup> nat) option"
  printed :: "printed_line list"

definition apply_filters :: "ucd \<Rightarrow> filters_config \<Rightarrow> monitor_state \<Rightarrow> post \<Rightarrow> bool \<times> monitor_state" where
  "apply_filters U filters_config st post =
     (if \<not> dict_get (enabled filters_config) False then (True, st)
      else
        let title = dict_get (post_title post) [];
            summary = dict_get (post_summary post) [];
            keyword_passed = check_keyword_filter U filters_config title summary
        in
          if \<not> keyword_passed \<and>
             dict_get (log_rejected_posts (dict_get (advanced_section filters_config) no_advanced)) False
          then
            let counts = dict_get (rejected_count_per_feed st) Map.empty;
                feed_name = dict_get (post_feed_name post) (ustr ''unknown'');
                count = dict_get (counts feed_name) 0
            in
              if count < 3 then
                (keyword_passed,
                 st\<lparr> rejected_count_per_feed := Some (counts(feed_name \<mapsto> count + 1)),
                     printed := printed st @ [Post_filtered_out, Title_line (take 60 title)] \<rparr>)
              else if count = 3 then
                (keyword_passed,
                 st\<lparr> rejected_count_per_feed := Some (counts(feed_name \<mapsto> count + 1)),
                     printed := printed st @ [More_rejected] \<rparr>)
              else (keyword_passed, st\<lparr> rejected_count_per_feed := Some counts \<rparr>)
          else (keyword_passed, st))"

subsection \<open>Tokens, in the words of the specification\<close>

text \<open>
  \<open>token_in w t\<close>: \<open>w\<close> occurs in \<open>t\<close> as a token that is space-delimited or
  hyphen-adjacent, that is, with a space, a hyphen or an end of the text on each side.
\<close>

definition token_in :: "ustring \<Rightarrow> ustring \<Rightarrow> bool" where
  "token_in w t \<longleftrightarrow>
     list_ex (\<lambda>a. list_ex (\<lambda>b. str_in ([a] @ w @ [b]) (padded t)) (ustr '' -'')) (ustr '' -'')"

definition compound_tokens :: "ustring list" where
  "compound_tokens =
     [ustr ''gru-rec'', ustr ''sp-rec'', ustr ''sp-pe'', ustr ''para pe'', ustr ''destino pe'',
      ustr ''rumo pe'']"

subsection \<open>The examples of the specification\<close>


definition normalized_post :: "ucd \<Rightarrow> ustring \<Rightarrow> ustring \<Rightarrow> ustring" where
  "normalized_post U title summary =
     normalize_text U (Some (py_lower U (title_and_summary title summary)))"

definition example_config :: "bool \<Rightarrow> ustring list \<Rightarrow> filters_config" where
  "example_config on miles =
     \<lparr> enabled = Some True, routes_section = None,
       keywords_section = Some \<lparr> keywords_enabled = Some on, miles_keywords = Some miles \<rparr>,
       price_section = None, airlines_section = None, advanced_section = None \<rparr>"

definition title_recife :: ustring where
  "title_recife = ustr ''Promo'' @ [0xE7, 0xE3] @ ustr ''o de passagem para Recife''"

definition title_salvador :: ustring where
  "title_salvador = ustr ''Promo'' @ [0xE7, 0xE3] @ ustr ''o de passagem para Salvador''"


definition title_parecer :: ustring where
  "title_parecer = ustr ''Parec. final''"

definition initial_state :: monitor_state where
  "initial_state = \<lparr> rejected_count_per_feed = None, printed = [] \<rparr>"

section \<open>The route predicate\<close>




text \<open>
  The exceptions the modelled code can raise: \<open>ValueError\<close> from unpacking a list that
  does not have exactly two elements, \<open>ZeroDivisionError\<close> from a float division.
\<close>

datatype py_error = ValueError | ZeroDivisionError






subsection \<open>Matching an entry, in the words of the specification\<close>








section \<open>The price extractor\<close>

text \<open>
  The regular expressions of \<open>extract_price\<close>, as \<open>re\<close> compiles them under
  \<open>re.IGNORECASE\<close>: \<open>Letter p\<close> is a cased literal, matched case-insensitively; \<open>Char p\<close>
  is an uncased literal (\<open>\$\<close>, \<open>\.\<close>, \<open>,\<close>), matched exactly; \<open>Digit\<close> is \<open>\d\<close>, \<open>Space\<close> is
  \<open>\s\<close>, \<open>Opt\<close> is the greedy \<open>?\<close>, \<open>Star\<close> the greedy \<open>*\<close>, \<open>Seq\<close> concatenation and
  \<open>Eps\<close> the empty expression.
\<close>

datatype regex =
  Eps | Letter codepoint | Char codepoint | Digit | Space
  | Seq regex regex | Opt regex | Star regex

text \<open>
  \<open>rmatch U e s\<close> lists what can remain of \<open>s\<close> after \<open>e\<close> has matched at its start, in
  the order in which the backtracking matcher of \<open>re\<close> tries the alternatives: a greedy
  operator tries to match once more before it tries to stop. As in \<open>re\<close>, \<open>Star\<close> does
  not repeat an iteration that consumed nothing.
\<close>

fun rmatch :: "ucd \<Rightarrow> regex \<Rightarrow> ustring \<Rightarrow> ustring list" where
  "rmatch U Eps s = [s]"
| "rmatch U (Letter p) s =
     (case s of [] \<Rightarrow> [] | c # cs \<Rightarrow> if ignorecase_eq U p c then [cs] else [])"
| "rmatch U (Char p) s = (case s of [] \<Rightarrow> [] | c # cs \<Rightarrow> if c = p then [cs] else [])"
| "rmatch U Digit s =
     (case s of [] \<Rightarrow> [] | c # cs \<Rightarrow> if decimal U c \<noteq> None then [cs] else [])"
| "rmatch U Space s = (case s of [] \<Rightarrow> [] | c # cs \<Rightarrow> if whitespace U c then [cs] else [])"
| "rmatch U (Seq a b) s = concat (map (rmatch U b) (rmatch U a s))"
| "rmatch U (Opt a) s = rmatch U a s @ [s]"
| "rmatch U (Star a) s =
     concat (map (\<lambda>r. if length r < length s then rmatch U (Star a) r else []) (rmatch U a s))
     @ [s]"

declare rmatch.simps(8) [simp del]

text \<open>
  A pattern of \<open>extract_price\<close> has one capturing group: what stands before the group,
  the group, and what stands after it. \<open>attempts\<close> lists the ways the pattern matches at
  the start of \<open>s\<close>, each as the text of the group and the rest of \<open>s\<close> after the match,
  in the matcher's order; \<open>match_at\<close> is the first, the match \<open>re\<close> reports.
\<close>

record pattern =
  before_group :: regex
  group :: regex
  after_group :: regex

definition attempts :: "ucd \<Rightarrow> pattern \<Rightarrow> ustring \<Rightarrow> (ustring \<times> ustring) list" where
  "attempts U pat s =
     concat (map (\<lambda>r1.
       concat (map (\<lambda>r2.
         map (\<lambda>r3. (take (length r1 - length r2) r1, r3)) (rmatch U (after_group pat) r2))
         (rmatch U (group pat) r1)))
       (rmatch U (before_group pat) s))"

definition match_at :: "ucd \<Rightarrow> pattern \<Rightarrow> ustring \<Rightarrow> (ustring \<times> ustring) option" where
  "match_at U pat s = (case attempts U pat s of [] \<Rightarrow> None | m # _ \<Rightarrow> Some m)"

text \<open>
  \<open>re.findall(pattern, text)\<close> for a pattern with one group: the text is scanned from
  left to right; a match contributes the text of its group and the scan goes on after
  it, or one code point further when the match was empty.
\<close>

function findall :: "ucd \<Rightarrow> pattern \<Rightarrow> ustring \<Rightarrow> ustring list" where
  "findall U pat s =
     (case match_at U pat s of
        None \<Rightarrow> (case s of [] \<Rightarrow> [] | _ # cs \<Rightarrow> findall U pat cs)
      | Some (g, r) \<Rightarrow>
          if length r < length s then g # findall U pat r
          else g # (case s of [] \<Rightarrow> [] | _ # cs \<Rightarrow> findall U pat cs))"
  by pat_completeness auto
termination
  by (relation "measure (\<lambda>(U, pat, s). length s)") auto

declare findall.simps [simp del]

text \<open>The four entries of \<open>price_patterns\<close>.\<close>

definition word :: "ustring \<Rightarrow> regex" where
  "word w = foldr (\<lambda>c e. Seq (Letter c) e) w Eps"

definition spaces :: regex where
  "spaces = Star Space"

definition number :: regex where
  "number =
     Seq (Seq Digit (Opt (Seq Digit (Opt Digit))))
       (Seq (Star (Seq (Char 0x2E) (Seq Digit (Seq Digit Digit))))
            (Opt (Seq (Char 0x2C) (Seq Digit Digit))))"

definition currency :: regex where
  "currency = Seq (Letter 0x52) (Seq (Char 0x24) spaces)"

definition pattern_1 :: pattern where
  "pattern_1 = \<lparr> before_group = currency, group = number, after_group = Eps \<rparr>"

definition pattern_2 :: pattern where
  "pattern_2 = \<lparr> before_group = Eps, group = number,
                  after_group = Seq spaces (word (ustr ''reais'')) \<rparr>"

definition pattern_3 :: pattern where
  "pattern_3 = \<lparr> before_group = Seq (Seq (word (ustr ''por'')) spaces) currency,
                  group = number, after_group = Eps \<rparr>"

definition pattern_4 :: pattern where
  "pattern_4 =
     \<lparr> before_group =
         Seq (Seq (word (ustr ''partir''))
               (Seq (Seq Space spaces) (Seq (word (ustr ''de'')) spaces))) currency,
       group = number, after_group = Eps \<rparr>"

definition price_patterns :: "pattern list" where
  "price_patterns = [pattern_1, pattern_2, pattern_3, pattern_4]"

text \<open>
  \<open>float(price_str)\<close>. \<open>price_str\<close> holds decimal digits and full stops only, and on such
  strings \<open>float\<close> accepts digits with at most one full stop and at least one digit, and
  raises \<open>ValueError\<close> (\<open>None\<close>) otherwise. The float is taken to be the decimal number
  written, a real. \<open>brazilian_to_decimal\<close> is \<open>.replace('.', '').replace(',', '.')\<close>.
\<close>

fun digits_value :: "ucd \<Rightarrow> nat \<Rightarrow> ustring \<Rightarrow> nat option" where
  "digits_value U acc [] = Some acc"
| "digits_value U acc (c # cs) =
     (case decimal U c of None \<Rightarrow> None | Some d \<Rightarrow> digits_value U (10 * acc + d) cs)"

definition py_float :: "ucd \<Rightarrow> ustring \<Rightarrow> real option" where
  "py_float U s =
     (let whole = takeWhile (\<lambda>c. c \<noteq> 0x2E) s;
          fraction = drop 1 (dropWhile (\<lambda>c. c \<noteq> 0x2E) s)
      in if whole = [] \<and> fraction = [] then None
         else case (digits_value U 0 whole, digits_value U 0 fraction) of
                (Some w, Some f) \<Rightarrow> Some (real w + real f / 10 ^ length fraction)
              | _ \<Rightarrow> None)"

definition brazilian_to_decimal :: "ustring \<Rightarrow> ustring" where
  "brazilian_to_decimal s = map (\<lambda>c. if c = 0x2C then 0x2E else c) (filter (\<lambda>c. c \<noteq> 0x2E) s)"

text \<open>
  \<open>extract_price\<close> (main.py). \<open>try_patterns\<close> is the loop over the patterns: the first
  match of the first pattern that has one is converted, and a \<open>ValueError\<close> of the
  conversion sends the loop on to the next pattern.
\<close>

fun try_patterns :: "ucd \<Rightarrow> pattern list \<Rightarrow> ustring \<Rightarrow> real option" where
  "try_patterns U [] text = None"
| "try_patterns U (pat # pats) text =
     (case findall U pat text of
        [] \<Rightarrow> try_patterns U pats text
      | m # _ \<Rightarrow>
          (case py_float U (brazilian_to_decimal m) of
             Some price \<Rightarrow> Some price
           | None \<Rightarrow> try_patterns U pats text))"

fun extract_price :: "ucd \<Rightarrow> ustring option \<Rightarrow> real option" where
  "extract_price U None = None"
| "extract_price U (Some text) =
     (if text = [] then None else try_patterns U price_patterns text)"

text \<open>The variant of \<open>extract_price\<close> that tries only the first two patterns.\<close>

definition first_two_patterns :: "pattern list" where
  "first_two_patterns = [pattern_1, pattern_2]"

fun extract_price_first_two :: "ucd \<Rightarrow> ustring option \<Rightarrow> real option" where
  "extract_price_first_two U None = None"
| "extract_price_first_two U (Some text) =
     (if text = [] then None else try_patterns U first_two_patterns text)"

text \<open>
  \<open>lang U e\<close> is the set of texts that \<open>e\<close> matches in full, and \<open>parse_fails\<close> says of a
  pattern that it finds nothing in the text or that its first match does not convert.
\<close>

fun lang :: "ucd \<Rightarrow> regex \<Rightarrow> ustring set" where
  "lang U Eps = {[]}"
| "lang U (Letter p) = {[c] | c. ignorecase_eq U p c}"
| "lang U (Char p) = {[p]}"
| "lang U Digit = {[c] | c. decimal U c \<noteq> None}"
| "lang U Space = {[c] | c. whitespace U c}"
| "lang U (Seq a b) = {x @ y | x y. x \<in> lang U a \<and> y \<in> lang U b}"
| "lang U (Opt a) = insert [] (lang U a)"
| "lang U (Star a) = {concat ws | ws. set ws \<subseteq> lang U a}"

definition parse_fails :: "ucd \<Rightarrow> ustring \<Rightarrow> pattern \<Rightarrow> bool" where
  "parse_fails U text pat =
     (case findall U pat text of
        [] \<Rightarrow> True
      | m # _ \<Rightarrow> py_float U (brazilian_to_decimal m) = None)"

section \<open>The price predicate\<close>









section \<open>The deal scorer\<close>

text \<open>
  Prices are Python floats; they are taken here as real numbers, so that the rounding of
  float arithmetic is left out. \<open>py_round x n\<close> is \<open>round(x, n)\<close>, which rounds to \<open>n\<close>
  decimals and a tie to the even neighbour.
\<close>

definition py_round :: "real \<Rightarrow> nat \<Rightarrow> real" where
  "py_round x ndigits =
     (let y = x * 10 ^ ndigits;
          below = \<lfloor>y\<rfloor>;
          rest = y - of_int below;
          nearest = (if rest < 1 / 2 then below
                     else if 1 / 2 < rest then below + 1
                     else if even below then below else below + 1)
      in of_int nearest / 10 ^ ndigits)"

text \<open>
  \<open>_rate_deal_quality\<close> (main.py); the grades are the strings it returns. The division
  raises \<open>ZeroDivisionError\<close> when the market price is 0, which the first test lets
  through for a negative promotion price.
\<close>

datatype deal_quality = RUIM | EXCELENTE | MUITO_BOA | BOA | REGULAR

definition rate_deal_quality :: "real \<Rightarrow> real \<Rightarrow> py_error + deal_quality" where
  "rate_deal_quality promo_price market_price =
     (if promo_price \<ge> market_price then Inr RUIM
      else if market_price = 0 then Inl ZeroDivisionError
      else
        let savings_pct = ((market_price - promo_price) / market_price) * 100 in
        if savings_pct \<ge> 30 then Inr EXCELENTE
        else if savings_pct \<ge> 15 then Inr MUITO_BOA
        else if savings_pct \<ge> 5 then Inr BOA
        else Inr REGULAR)"

text \<open>
  The dictionary \<open>deal_analysis\<close> that \<open>enhance_post_with_price_analysis\<close> (main.py)
  builds from the promotion price extracted from the post and the market price. The
  keys of the promotion are present only in the branch \<open>if promo_price:\<close>, which a price
  of 0 does not take, since 0.0 is falsy; in the other branch, where the code stores
  \<open>promotion_price_brl = None\<close> and the note that no promotion price was identified in the
  text, \<open>promotion\<close> is \<open>None\<close>. The key \<open>has_promotion_price\<close> is set before, by
  \<open>promo_price is not None\<close>. An exception raised while the dictionary is built leaves the
  function through its \<open>except\<close> clause.
\<close>

record promotion =
  promotion_price_brl :: real
  savings_vs_market :: real
  discount_percentage :: real
  is_good_deal :: bool
  deal_quality :: deal_quality

record deal_analysis =
  current_market_price_brl :: real
  market_price_rating :: ustring
  has_promotion_price :: bool
  promotion :: "promotion option"

definition deal_analysis_of :: "real option \<Rightarrow> real \<Rightarrow> ustring \<Rightarrow> py_error + deal_analysis" where
  "deal_analysis_of promo_price current_market_price price_rating =
     (case promo_price of
        None \<Rightarrow>
          Inr \<lparr> current_market_price_brl = current_market_price,
                market_price_rating = price_rating,
                has_promotion_price = False, promotion = None \<rparr>
      | Some promo \<Rightarrow>
          if promo = 0 then
            Inr \<lparr> current_market_price_brl = current_market_price,
                  market_price_rating = price_rating,
                  has_promotion_price = True, promotion = None \<rparr>
          else
            let savings = current_market_price - promo in
            case rate_deal_quality promo current_market_price of
              Inl e \<Rightarrow> Inl e
            | Inr quality \<Rightarrow>
                Inr \<lparr> current_market_price_brl = current_market_price,
                      market_price_rating = price_rating,
                      has_promotion_price = True,
                      promotion = Some
                        \<lparr> promotion_price_brl = promo,
                          savings_vs_market = savings,
                          discount_percentage =
                            (if current_market_price > 0
                             then py_round ((savings / current_market_price) * 100) 1 else 0),
                          is_good_deal = (savings > 50 \<and> promo < 500),
                          deal_quality = quality \<rparr> \<rparr>)"

text \<open>
  \<open>graded\<close> is the grade and \<open>scored\<close> the whole scoring in the words of the
  specification, and \<open>title_free\<close> a title with the price 0.
\<close>

definition graded :: "real \<Rightarrow> real \<Rightarrow> deal_quality" where
  "graded promo market =
     (if promo \<ge> market then RUIM
      else if (market - promo) / market * 100 \<ge> 30 then EXCELENTE
      else if (market - promo) / market * 100 \<ge> 15 then MUITO_BOA
      else if (market - promo) / market * 100 \<ge> 5 then BOA
      else REGULAR)"

definition scored :: "real \<Rightarrow> real \<Rightarrow> promotion" where
  "scored promo market =
     \<lparr> promotion_price_brl = promo,
       savings_vs_market = market - promo,
       discount_percentage =
         (if market > 0 then py_round ((market - promo) / market * 100) 1 else 0),
       is_good_deal = (market - promo > 50 \<and> promo < 500),
       deal_quality = graded promo market \<rparr>"

definition title_free :: ustring where
  "title_free = ustr ''Passagem para Recife por R$ 0''"

section \<open>The mileage estimator\<close>










section \<open>Properties of the text normalizer\<close>

lemma set_place: "set (place U c out) = insert c (set out)"
  by (induction out) auto

lemma set_foldl_place: "set (foldl (\<lambda>out c. place U c out) acc s) = set acc \<union> set s"
  by (induction s arbitrary: acc) (auto simp: set_place)

lemma set_nfd: "set (nfd U s) = (\<Union>c\<in>set s. set (decomposition U c))"
  by (simp add: nfd_def canonical_order_def set_foldl_place)

lemma set_lower_from: "set (lower_from U seen s) \<subseteq> (\<Union>d\<in>set s. set (lowered U d))"
  by (induction s arbitrary: seen) (auto simp: lowered_def handle_capital_sigma_def Let_def)

lemma set_py_strip: "set (py_strip U s) \<subseteq> set s"
proof -
  have "set (dropWhile (whitespace U) (rev (dropWhile (whitespace U) s)))
          \<subseteq> set (rev (dropWhile (whitespace U) s))"
    by (rule set_dropWhileD [THEN subsetI])
  also have "\<dots> \<subseteq> set s"
    by (auto dest: set_dropWhileD)
  finally show ?thesis
    by (simp add: py_strip_def)
qed

lemma foldl_place_starters:
  "\<forall>c\<in>set s. combining U c = 0 \<Longrightarrow> foldl (\<lambda>out c. place U c out) acc s = rev s @ acc"
proof (induction s arbitrary: acc)
  case Nil
  then show ?case by simp
next
  case (Cons c s)
  have "place U c acc = c # acc"
    using Cons.prems by (cases acc) simp_all
  with Cons show ?case by simp
qed

lemma nfd_settled: "\<forall>c\<in>set s. settled U c \<Longrightarrow> nfd U s = s"
proof -
  assume a: "\<forall>c\<in>set s. settled U c"
  have "concat (map (decomposition U) s) = s"
    using a by (induction s) (auto simp: settled_def)
  moreover have "\<forall>c\<in>set s. combining U c = 0"
    using a by (simp add: settled_def)
  ultimately show ?thesis
    by (simp add: nfd_def canonical_order_def foldl_place_starters)
qed

lemma lower_from_settled: "\<forall>c\<in>set s. settled U c \<Longrightarrow> lower_from U seen s = s"
  by (induction s arbitrary: seen) (auto simp: settled_def)

lemma py_strip_idem: "py_strip U (py_strip U s) = py_strip U s"
proof -
  define w where "w = whitespace U"
  define z where "z = dropWhile w (rev (dropWhile w s))"
  have z_idem: "dropWhile w z = z"
    by (simp add: z_def dropWhile_idem)
  have "dropWhile w (rev z) = rev z"
  proof (cases "z = []")
    case True
    then show ?thesis by simp
  next
    case False
    obtain ps where ps: "rev (dropWhile w s) = ps @ z"
      unfolding z_def by (metis takeWhile_dropWhile_id)
    then have "dropWhile w s = rev z @ rev ps"
      by (metis rev_append rev_rev_ident)
    moreover from False have "rev z \<noteq> []" by simp
    ultimately have "hd (dropWhile w s) = hd (rev z)" "dropWhile w s \<noteq> []"
      by simp_all
    then have "\<not> w (hd (rev z))"
      by (metis hd_dropWhile)
    with \<open>rev z \<noteq> []\<close> show ?thesis
      by (cases "rev z") simp_all
  qed
  then show ?thesis
    by (simp add: py_strip_def w_def [symmetric] z_def [symmetric] z_idem)
qed

lemma normalize_text_settled:
  assumes "\<forall>c\<in>set s. settles U c"
  shows "\<forall>e\<in>set (normalize_text U (Some s)). settled U e"
proof (cases "s = []")
  case True
  then show ?thesis by simp
next
  case False
  let ?kept = "filter (\<lambda>c. \<not> category_Mn U c) (nfd U s)"
  have kept: "\<forall>d\<in>set ?kept. \<forall>e\<in>set (lowered U d). settled U e"
    using assms by (auto simp: set_nfd settles_def list_all_iff)
  have "set (py_strip U (py_lower U ?kept)) \<subseteq> (\<Union>d\<in>set ?kept. set (lowered U d))"
    using set_py_strip [of U "py_lower U ?kept"] set_lower_from [of U "[]" ?kept]
    unfolding py_lower_def by blast
  with kept False show ?thesis by auto
qed

lemma normalize_text_fixed:
  assumes "\<forall>e\<in>set (py_strip U x). settled U e"
  shows "normalize_text U (Some (py_strip U x)) = py_strip U x"
proof -
  have "\<not> category_Mn U e" if "e \<in> set (py_strip U x)" for e
    using assms that by (simp add: settled_def)
  then have "filter (\<lambda>c. \<not> category_Mn U c) (py_strip U x) = py_strip U x"
    by (simp add: filter_id_conv)
  then show ?thesis
    using assms by (simp add: nfd_settled py_lower_def lower_from_settled py_strip_idem)
qed

lemma normalize_text_idem:
  assumes "\<forall>c\<in>set s. settles U c"
  shows "normalize_text U (Some (normalize_text U (Some s))) = normalize_text U (Some s)"
proof (cases "s = []")
  case True
  then show ?thesis by simp
next
  case False
  let ?x = "py_lower U (filter (\<lambda>c. \<not> category_Mn U c) (nfd U s))"
  have eq: "normalize_text U (Some s) = py_strip U ?x"
    using False by simp
  have "\<forall>e\<in>set (py_strip U ?x). settled U e"
    using normalize_text_settled [OF assms] eq by simp
  then show ?thesis
    unfolding eq by (rule normalize_text_fixed)
qed

lemma settles_latin1_a: "list_all (settles ucd_fragment) [0..<64]"
  by code_simp

lemma settles_latin1_b: "list_all (settles ucd_fragment) [64..<128]"
  by code_simp

lemma settles_latin1_c: "list_all (settles ucd_fragment) [128..<192]"
  by code_simp

lemma settles_latin1_d: "list_all (settles ucd_fragment) [192..<256]"
  by code_simp

lemma settles_latin1: "c < 256 \<Longrightarrow> settles ucd_fragment c"
proof -
  assume "c < 256"
  then have "c \<in> {0..<64} \<or> c \<in> {64..<128} \<or> c \<in> {128..<192} \<or> c \<in> {192..<256}"
    by (simp only: atLeastLessThan_iff) arith
  with settles_latin1_a settles_latin1_b settles_latin1_c settles_latin1_d show ?thesis
    unfolding list_all_iff set_upt by blast
qed

text \<open>
  C8 (as amended). \<open>normalize_text\<close> applied twice gives the same as applied once for every
  string whose code points all settle after one pass, under any Unicode table, and so
  for every string of code points below U+0100 under the fragment of the database given
  above; and \<open>None\<close> and the empty string both give the empty string.
\<close>

theorem normalize_text_idempotent_settling:
  "((\<forall>c\<in>set s. settles U c) \<longrightarrow>
      normalize_text U (Some (normalize_text U (Some s))) = normalize_text U (Some s))
   \<and> ((\<forall>c\<in>set s. c < 256) \<longrightarrow>
      normalize_text ucd_fragment (Some (normalize_text ucd_fragment (Some s)))
        = normalize_text ucd_fragment (Some s))
   \<and> normalize_text U None = [] \<and> normalize_text U (Some []) = []"
  using normalize_text_idem [of s U] normalize_text_idem [of s ucd_fragment] settles_latin1
  by simp

theorem normalize_text_idempotent_settling_witness:
  "list_all (settles ucd_fragment) (ustr ''S'' @ [0xE3] @ ustr ''o Paulo '')
   \<and> normalize_text ucd_fragment (Some (ustr ''S'' @ [0xE3] @ ustr ''o Paulo '')) = ustr ''sao paulo''
   \<and> normalize_text ucd_fragment (Some (ustr ''sao paulo'')) = ustr ''sao paulo''"
proof -
  have h: "list_all (settles ucd_fragment) (ustr ''S'' @ [0xE3] @ ustr ''o Paulo '')"
    by code_simp
  have v: "normalize_text ucd_fragment (Some (ustr ''S'' @ [0xE3] @ ustr ''o Paulo '')) = ustr ''sao paulo''"
    by code_simp
  from h normalize_text_idempotent_settling [of "ustr ''S'' @ [0xE3] @ ustr ''o Paulo ''" ucd_fragment]
  show ?thesis
    unfolding v list_all_iff by blast
qed

text \<open>
  C8 as stated fails on the string U+1D16D U+034F U+1D165. The joiner U+034F has class 0
  and keeps the two musical marks apart in the first pass; it is a nonspacing mark, so the
  pass removes it, and the second pass swaps the two marks, now adjacent and out of
  canonical order (226 before 216).
\<close>

theorem normalize_text_idempotent_counterexample:
  "normalize_text ucd_fragment (Some (normalize_text ucd_fragment (Some [0x1D16D, 0x34F, 0x1D165])))
     \<noteq> normalize_text ucd_fragment (Some [0x1D16D, 0x34F, 0x1D165])"
  by code_simp

section \<open>Properties of the keyword predicate and of the relevance filter\<close>








text \<open>
  C2. The decision of \<open>apply_filters\<close> is \<open>True\<close> when filtering is globally disabled and
  the value of \<open>check_keyword_filter\<close> on the post's title and summary when it is enabled;
  replacing the route, price and airline sections of the configuration by any others
  leaves the decision unchanged.
\<close>

theorem apply_filters_keyword_only:
  "fst (apply_filters U cfg st post) =
     (if dict_get (enabled cfg) False
      then check_keyword_filter U cfg (dict_get (post_title post) []) (dict_get (post_summary post) [])
      else True)
   \<and> fst (apply_filters U (cfg\<lparr> routes_section := r, price_section := p, airlines_section := a \<rparr>)
           st post) = fst (apply_filters U cfg st post)"
  by (simp add: apply_filters_def check_keyword_filter_def Let_def)

theorem apply_filters_keyword_only_witness:
  "fst (apply_filters ucd_fragment (example_config True []) initial_state
         \<lparr> post_title = Some title_recife, post_summary = Some [], post_feed_name = None \<rparr>)
   \<and> \<not> fst (apply_filters ucd_fragment (example_config True []) initial_state
         \<lparr> post_title = Some title_salvador, post_summary = Some [], post_feed_name = None \<rparr>)"
proof -
  have a: "check_keyword_filter ucd_fragment (example_config True []) title_recife []"
    and b: "\<not> check_keyword_filter ucd_fragment (example_config True []) title_salvador []"
    and e: "dict_get (enabled (example_config True [])) False"
    by code_simp+
  show ?thesis
    using a b e
      apply_filters_keyword_only [of ucd_fragment "example_config True []" initial_state
        "\<lparr> post_title = Some title_recife, post_summary = Some [], post_feed_name = None \<rparr>"]
      apply_filters_keyword_only [of ucd_fragment "example_config True []" initial_state
        "\<lparr> post_title = Some title_salvador, post_summary = Some [], post_feed_name = None \<rparr>"]
    by (simp add: dict_get_def)
qed

lemma str_in_padded: "str_in x t \<Longrightarrow> str_in x (padded t)"
  unfolding str_in_def padded_def sublist_def by (metis append.assoc)

text \<open>
  C4 (as amended). A normalized text that contains neither "recife" nor "pernambuco", has
  neither "rec" nor "pe" as a space-delimited or hyphen-adjacent token, contains none of
  the compound tokens and does not contain "rec." has no Recife indicator.
\<close>

theorem has_recife_needs_token:
  assumes "\<not> str_in (ustr ''recife'') t" "\<not> str_in (ustr ''pernambuco'') t"
    "\<not> token_in (ustr ''rec'') t" "\<not> token_in (ustr ''pe'') t"
    "\<not> list_ex (\<lambda>x. str_in x t) compound_tokens"
    "\<not> str_in (ustr ''rec.'') t"
  shows "\<not> has_recife ucd_fragment t"
proof -
  have n1: "normalize_text ucd_fragment (Some (ustr ''recife'')) = ustr ''recife''"
    by code_simp
  have n2: "normalize_text ucd_fragment (Some (ustr ''pernambuco'')) = ustr ''pernambuco''"
    by code_simp
  have u: "ustr '' -'' = [32, 45]" "ustr '' rec '' = [32] @ ustr ''rec'' @ [32]"
    "ustr ''-rec '' = [45] @ ustr ''rec'' @ [32]" "ustr '' rec-'' = [32] @ ustr ''rec'' @ [45]"
    "ustr '' pe '' = [32] @ ustr ''pe'' @ [32]"
    by (simp_all add: ustr_def)
  have rec: "\<not> str_in ([a] @ ustr ''rec'' @ [b]) (padded t)" if "a \<in> {32, 45}" "b \<in> {32, 45}" for a b
    using assms(3) that unfolding token_in_def u by (auto simp: list_ex_iff)
  have pe: "\<not> str_in ([32] @ ustr ''pe'' @ [32]) (padded t)"
    using assms(4) unfolding token_in_def u by (auto simp: list_ex_iff)
  have para: "sublist (ustr '' pe '') (ustr ''para pe '')"
    by code_simp
  have "\<not> str_in (ustr ''para pe '') (padded t)"
    using pe para unfolding u(5) [symmetric] str_in_def
    by (meson sublist_order.order.trans)
  moreover have "\<not> str_in (ustr ''-rec '') t" "\<not> str_in (ustr '' rec-'') t"
    using rec [of 45 32] rec [of 32 45] str_in_padded unfolding u by auto
  moreover have "\<not> str_in (ustr '' rec '') (padded t)" "\<not> str_in (ustr '' pe '') (padded t)"
    using rec [of 32 32] pe unfolding u by auto
  moreover have "\<not> str_in (ustr ''gru-rec'') t" "\<not> str_in (ustr ''sp-rec'') t"
    "\<not> str_in (ustr ''sp-pe'') t" "\<not> str_in (ustr ''destino pe'') t" "\<not> str_in (ustr ''rumo pe'') t"
    using assms(5) by (simp_all add: compound_tokens_def)
  ultimately show ?thesis
    using assms(1,2,6) unfolding has_recife_def n1 n2 by blast
qed

theorem has_recife_needs_token_witness:
  "\<not> str_in (ustr ''recife'') (ustr ''promocao de passagem para salvador'')
   \<and> \<not> token_in (ustr ''rec'') (ustr ''promocao de passagem para salvador'')
   \<and> \<not> has_recife ucd_fragment (ustr ''promocao de passagem para salvador'')"
proof -
  let ?t = "ustr ''promocao de passagem para salvador''"
  have h: "\<not> str_in (ustr ''recife'') ?t" "\<not> str_in (ustr ''pernambuco'') ?t"
    "\<not> token_in (ustr ''rec'') ?t" "\<not> token_in (ustr ''pe'') ?t"
    "\<not> list_ex (\<lambda>x. str_in x ?t) compound_tokens"
    "\<not> str_in (ustr ''rec.'') ?t"
    by code_simp+
  from has_recife_needs_token [OF h] h show ?thesis by simp
qed

text \<open>
  C4 as stated fails on the title "Parec. final": the pattern \<open>'rec.'\<close> of the code has no
  boundary on its left, so "rec" inside the longer word "parec." counts as an indicator.
\<close>

theorem has_recife_needs_token_counterexample:
  "normalized_post ucd_fragment title_parecer [] = ustr ''parec. final''
   \<and> \<not> str_in (ustr ''recife'') (ustr ''parec. final'')
   \<and> \<not> str_in (ustr ''pernambuco'') (ustr ''parec. final'')
   \<and> \<not> token_in (ustr ''rec'') (ustr ''parec. final'')
   \<and> \<not> token_in (ustr ''pe'') (ustr ''parec. final'')
   \<and> \<not> list_ex (\<lambda>x. str_in x (ustr ''parec. final'')) compound_tokens
   \<and> has_recife ucd_fragment (ustr ''parec. final'')"
  by code_simp

section \<open>Properties of the route predicate\<close>









section \<open>Properties of the price extractor and of the price predicate\<close>

lemma lang_StarI: "set ws \<subseteq> lang U a \<Longrightarrow> concat ws \<in> lang U (Star a)"
  by (simp, rule exI [of _ ws], simp)

lemma rmatch_sound: "r \<in> set (rmatch U e s) \<Longrightarrow> \<exists>g\<in>lang U e. s = g @ r"
proof (induction U e s arbitrary: r rule: rmatch.induct)
  case (6 U a b s)
  then obtain r1 where r1: "r1 \<in> set (rmatch U a s)" "r \<in> set (rmatch U b r1)"
    by auto
  from "6.IH"(1) [OF r1(1)] obtain g1 where g1: "g1 \<in> lang U a" "s = g1 @ r1" by auto
  from "6.IH"(2) [OF r1(1) r1(2)] obtain g2 where g2: "g2 \<in> lang U b" "r1 = g2 @ r" by auto
  from g1 g2 show ?case by auto
next
  case (7 U a s)
  then show ?case by auto
next
  case (8 U a s)
  show ?case
  proof (cases "r = s")
    case True
    have "[] \<in> lang U (Star a)"
      using lang_StarI [of "[]" U a] by simp
    with True show ?thesis by blast
  next
    case False
    from "8.prems" have "r \<in> set (concat (map (\<lambda>r. if length r < length s
        then rmatch U (Star a) r else []) (rmatch U a s)) @ [s])"
      by (subst (asm) rmatch.simps(8))
    with False obtain r1 where r1: "r1 \<in> set (rmatch U a s)" "length r1 < length s"
      "r \<in> set (rmatch U (Star a) r1)"
      by (auto split: if_splits)
    from "8.IH"(1) [OF r1(1)] obtain g1 where g1: "g1 \<in> lang U a" "s = g1 @ r1" by auto
    from "8.IH"(2) [OF r1(1) r1(2) r1(3)] obtain ws where ws: "set ws \<subseteq> lang U a" "r1 = concat ws @ r"
      by auto
    have "set (g1 # ws) \<subseteq> lang U a"
      using g1 ws by simp
    then have "concat (g1 # ws) \<in> lang U (Star a)"
      by (rule lang_StarI)
    moreover have "s = concat (g1 # ws) @ r"
      using g1 ws by simp
    ultimately show ?thesis by blast
  qed
qed (auto split: list.splits if_splits)

lemma rmatch_suffix: "r \<in> set (rmatch U e s) \<Longrightarrow> suffix r s"
  using rmatch_sound by (fastforce simp: suffix_def)

lemma attempts_group:
  assumes "(g, r) \<in> set (attempts U pat s)"
  shows "g \<in> lang U (group pat) \<and> suffix r s"
proof -
  from assms obtain r1 r2 where r: "r1 \<in> set (rmatch U (before_group pat) s)"
    "r2 \<in> set (rmatch U (group pat) r1)" "r \<in> set (rmatch U (after_group pat) r2)"
    "g = take (length r1 - length r2) r1"
    by (auto simp: attempts_def)
  from rmatch_sound [OF r(2)] obtain x where x: "x \<in> lang U (group pat)" "r1 = x @ r2" by auto
  then have "g = x" using r(4) by simp
  moreover have "suffix r s"
    using rmatch_suffix [OF r(1)] rmatch_suffix [OF r(2)] rmatch_suffix [OF r(3)]
    by (blast intro: suffix_order.trans)
  ultimately show ?thesis using x by simp
qed

lemma match_at_attempts: "match_at U pat s = Some m \<Longrightarrow> m \<in> set (attempts U pat s)"
  by (auto simp: match_at_def split: list.splits)

lemma findall_group: "m \<in> set (findall U pat s) \<Longrightarrow> m \<in> lang U (group pat)"
proof (induction U pat s rule: findall.induct)
  case (1 U pat s)
  show ?case
  proof (cases "match_at U pat s")
    case None
    with "1.prems" "1.IH"(1) show ?thesis
      by (subst (asm) findall.simps) (auto split: list.splits)
  next
    case (Some gr)
    obtain g r where gr: "gr = (g, r)" by (cases gr)
    have g: "g \<in> lang U (group pat)"
      using match_at_attempts [OF Some] attempts_group gr by blast
    from "1.prems" have "m = g \<or> (length r < length s \<and> m \<in> set (findall U pat r))
        \<or> (\<not> length r < length s \<and> (\<exists>c cs. s = c # cs \<and> m \<in> set (findall U pat cs)))"
      by (subst (asm) findall.simps) (auto simp: Some gr split: list.splits if_splits)
    with g "1.IH"(2) [OF Some gr [symmetric]] "1.IH"(3) [OF Some gr [symmetric]] Some gr
    show ?thesis by blast
  qed
qed

lemma findall_nonempty:
  "findall U pat s \<noteq> [] \<longleftrightarrow> (\<exists>t. suffix t s \<and> attempts U pat t \<noteq> [])"
proof (induction U pat s rule: findall.induct)
  case (1 U pat s)
  show ?case
  proof (cases "match_at U pat s")
    case (Some gr)
    then have "attempts U pat s \<noteq> []"
      by (auto simp: match_at_def split: list.splits)
    moreover have "findall U pat s \<noteq> []"
      by (subst findall.simps) (auto simp: Some split: prod.splits)
    ultimately show ?thesis by auto
  next
    case None
    then have no: "attempts U pat s = []"
      by (auto simp: match_at_def split: list.splits)
    show ?thesis
    proof (cases s)
      case Nil
      with no None show ?thesis
        by (subst findall.simps) auto
    next
      case (Cons c cs)
      have "findall U pat s = (case s of [] \<Rightarrow> [] | _ # cs \<Rightarrow> findall U pat cs)"
        by (subst findall.simps) (simp add: None)
      then have "findall U pat s = findall U pat cs"
        by (simp add: Cons)
      moreover have "(\<exists>t. suffix t s \<and> attempts U pat t \<noteq> []) \<longleftrightarrow>
          (\<exists>t. suffix t cs \<and> attempts U pat t \<noteq> [])"
        using no Cons by (auto simp: suffix_Cons)
      ultimately show ?thesis
        using "1.IH"(1) [OF None Cons] by simp
    qed
  qed
qed

lemma attempts_Seq:
  "attempts U \<lparr> before_group = Seq x b, group = g, after_group = a \<rparr> s =
     concat (map (attempts U \<lparr> before_group = b, group = g, after_group = a \<rparr>) (rmatch U x s))"
proof -
  define F where "F = (\<lambda>r1. concat (map (\<lambda>r2.
      map (\<lambda>r3. (take (length r1 - length r2) r1, r3)) (rmatch U a r2)) (rmatch U g r1)))"
  have A: "attempts U \<lparr> before_group = e, group = g, after_group = a \<rparr>
             = (\<lambda>t. concat (map F (rmatch U e t)))" for e
    by (rule ext) (simp add: attempts_def F_def)
  have B: "concat (map F (concat (map h xs))) = concat (map (\<lambda>r. concat (map F (h r))) xs)"
    for h :: "ustring \<Rightarrow> ustring list" and xs
    by (induction xs) simp_all
  show ?thesis
    unfolding A by (simp only: rmatch.simps B)
qed

lemma digits_value_Some:
  "\<forall>c\<in>set xs. decimal U c \<noteq> None \<Longrightarrow> digits_value U acc xs \<noteq> None"
  by (induction xs arbitrary: acc) auto

lemma py_float_digits:
  assumes D: "\<forall>c\<in>set D. decimal U c \<noteq> None" "D \<noteq> []"
    and F: "F = [] \<or> (\<exists>a b. F = [0x2E, a, b] \<and> decimal U a \<noteq> None \<and> decimal U b \<noteq> None)"
    and dot: "decimal U 0x2E = None"
  shows "py_float U (D @ F) \<noteq> None"
proof -
  have nd: "\<forall>c\<in>set D. c \<noteq> 0x2E"
    using D(1) dot by auto
  have tw: "takeWhile (\<lambda>c. c \<noteq> 0x2E) (D @ F) = D"
    using nd F by (auto simp: takeWhile_append2)
  have dw: "dropWhile (\<lambda>c. c \<noteq> 0x2E) (D @ F) = F"
    using nd F by (auto simp: dropWhile_append2)
  have "\<forall>c\<in>set (drop 1 F). decimal U c \<noteq> None"
    using F by auto
  then have "digits_value U 0 (drop 1 F) \<noteq> None"
    by (rule digits_value_Some)
  moreover have "digits_value U 0 D \<noteq> None"
    using D(1) by (rule digits_value_Some)
  ultimately show ?thesis
    using D(2) by (auto simp: py_float_def tw dw Let_def)
qed

lemma lang_SeqE:
  "g \<in> lang U (Seq a b) \<Longrightarrow> \<exists>x y. g = x @ y \<and> x \<in> lang U a \<and> y \<in> lang U b"
  by simp

lemma lang_digits_1_3:
  "d \<in> lang U (Seq Digit (Opt (Seq Digit (Opt Digit)))) \<Longrightarrow>
     d \<noteq> [] \<and> (\<forall>c\<in>set d. decimal U c \<noteq> None)"
  by auto

lemma lang_thousand:
  "w \<in> lang U (Seq (Char 0x2E) (Seq Digit (Seq Digit Digit))) \<Longrightarrow>
     \<forall>c\<in>set w. c = 0x2E \<or> decimal U c \<noteq> None"
  by auto

lemma lang_thousands:
  assumes "x \<in> lang U (Star (Seq (Char 0x2E) (Seq Digit (Seq Digit Digit))))"
  shows "\<forall>c\<in>set (filter (\<lambda>c. c \<noteq> 0x2E) x). decimal U c \<noteq> None"
proof -
  from assms obtain ws where ws: "x = concat ws"
    "set ws \<subseteq> lang U (Seq (Char 0x2E) (Seq Digit (Seq Digit Digit)))"
    by (subst (asm) lang.simps(8)) blast
  have "\<forall>c\<in>set w. c = 0x2E \<or> decimal U c \<noteq> None" if "w \<in> set ws" for w
    using ws(2) that lang_thousand by blast
  then show ?thesis
    unfolding ws(1) by auto
qed

lemma lang_cents:
  "f \<in> lang U (Opt (Seq (Char 0x2C) (Seq Digit Digit))) \<Longrightarrow>
     f = [] \<or> (\<exists>a b. f = [0x2C, a, b] \<and> decimal U a \<noteq> None \<and> decimal U b \<noteq> None)"
  by auto

lemma number_parses:
  assumes sane: "decimal U 0x2E = None" "decimal U 0x2C = None"
    and g: "g \<in> lang U number"
  shows "py_float U (brazilian_to_decimal g) \<noteq> None"
proof -
  from g obtain d r where dr: "g = d @ r"
    "d \<in> lang U (Seq Digit (Opt (Seq Digit (Opt Digit))))"
    "r \<in> lang U (Seq (Star (Seq (Char 0x2E) (Seq Digit (Seq Digit Digit))))
                      (Opt (Seq (Char 0x2C) (Seq Digit Digit))))"
    unfolding number_def by (blast dest: lang_SeqE)
  from dr(3) obtain t f where tf: "r = t @ f"
    "t \<in> lang U (Star (Seq (Char 0x2E) (Seq Digit (Seq Digit Digit))))"
    "f \<in> lang U (Opt (Seq (Char 0x2C) (Seq Digit Digit)))"
    by (blast dest: lang_SeqE)
  have d: "d \<noteq> []" "\<forall>c\<in>set d. decimal U c \<noteq> None"
    using lang_digits_1_3 [OF dr(2)] by simp_all
  have t: "\<forall>c\<in>set (filter (\<lambda>c. c \<noteq> 0x2E) t). decimal U c \<noteq> None"
    using tf(2) by (rule lang_thousands)
  have f: "f = [] \<or> (\<exists>a b. f = [0x2C, a, b] \<and> decimal U a \<noteq> None \<and> decimal U b \<noteq> None)"
    using tf(3) by (rule lang_cents)
  let ?D = "d @ filter (\<lambda>c. c \<noteq> 0x2E) t"
  let ?F = "brazilian_to_decimal f"
  have D: "\<forall>c\<in>set ?D. decimal U c \<noteq> None" "?D \<noteq> []"
    using d t by auto
  have d46: "filter (\<lambda>c. c \<noteq> 0x2E) d = d"
    using d(2) sane(1) by (auto simp: filter_id_conv)
  have "c \<noteq> 0x2C" if "c \<in> set ?D" for c
    using D(1) sane(2) that by force
  then have D44: "map (\<lambda>c. if c = 0x2C then 0x2E else c) ?D = ?D"
    by (intro map_idI) simp
  have F: "?F = [] \<or> (\<exists>a b. ?F = [0x2E, a, b] \<and> decimal U a \<noteq> None \<and> decimal U b \<noteq> None)"
  proof (cases "f = []")
    case True
    then show ?thesis by (simp add: brazilian_to_decimal_def)
  next
    case False
    with f obtain a b where ab: "f = [0x2C, a, b]" "decimal U a \<noteq> None" "decimal U b \<noteq> None"
      by blast
    then have "a \<noteq> 0x2E" "b \<noteq> 0x2E" "a \<noteq> 0x2C" "b \<noteq> 0x2C"
      using sane by auto
    then have "?F = [0x2E, a, b]"
      by (simp add: ab(1) brazilian_to_decimal_def)
    with ab show ?thesis by blast
  qed
  have "brazilian_to_decimal g = ?D @ ?F"
    using d46 D44 by (simp add: dr(1) tf(1) brazilian_to_decimal_def)
  then show ?thesis
    using py_float_digits [OF D F sane(1)] by simp
qed

lemma first_match_parses:
  assumes "decimal U 0x2E = None" "decimal U 0x2C = None"
    and "group pat = number" "findall U pat text = m # ms"
  shows "py_float U (brazilian_to_decimal m) \<noteq> None"
proof -
  have "m \<in> set (findall U pat text)"
    using assms(4) by simp
  then have "m \<in> lang U number"
    using findall_group assms(3) by metis
  with assms(1,2) show ?thesis
    by (rule number_parses)
qed

lemma longer_prefix_needs_shorter:
  assumes "findall U \<lparr> before_group = Seq x b, group = g, after_group = a \<rparr> text \<noteq> []"
  shows "findall U \<lparr> before_group = b, group = g, after_group = a \<rparr> text \<noteq> []"
proof -
  from assms obtain t where t: "suffix t text"
    "attempts U \<lparr> before_group = Seq x b, group = g, after_group = a \<rparr> t \<noteq> []"
    unfolding findall_nonempty by blast
  from t(2) obtain r where r: "r \<in> set (rmatch U x t)"
    "attempts U \<lparr> before_group = b, group = g, after_group = a \<rparr> r \<noteq> []"
    unfolding attempts_Seq by auto
  have "suffix r text"
    using rmatch_suffix [OF r(1)] t(1) by (blast intro: suffix_order.trans)
  with r(2) show ?thesis
    unfolding findall_nonempty by blast
qed

lemma try_patterns_Cons:
  "try_patterns U (pat # pats) text = None \<longleftrightarrow>
     parse_fails U text pat \<and> try_patterns U pats text = None"
  by (auto simp: parse_fails_def split: list.splits option.splits)

lemma try_patterns_None:
  "try_patterns U pats text = None \<longleftrightarrow> list_all (parse_fails U text) pats"
  by (induction pats) (simp_all add: try_patterns_Cons del: try_patterns.simps(2))

lemma try_patterns_first_two:
  assumes sane: "decimal U 0x2E = None" "decimal U 0x2C = None"
  shows "try_patterns U price_patterns text = try_patterns U first_two_patterns text"
proof (cases "findall U pattern_1 text")
  case (Cons m ms)
  have "group pattern_1 = number" by (simp add: pattern_1_def)
  from first_match_parses [OF sane this Cons] Cons show ?thesis
    by (auto simp: price_patterns_def first_two_patterns_def)
next
  case Nil
  note n1 = Nil
  then have n3: "findall U pattern_3 text = []" and n4: "findall U pattern_4 text = []"
    using longer_prefix_needs_shorter [of U _ currency number Eps "text"]
    by (auto simp: pattern_1_def pattern_3_def pattern_4_def)
  show ?thesis
  proof (cases "findall U pattern_2 text")
    case Nil
    with n1 n3 n4 show ?thesis
      by (simp add: price_patterns_def first_two_patterns_def)
  next
    case (Cons m ms)
    have "group pattern_2 = number" by (simp add: pattern_2_def)
    from first_match_parses [OF sane this Cons] Cons n1 show ?thesis
      by (auto simp: price_patterns_def first_two_patterns_def)
  qed
qed

text \<open>
  C5. \<open>extract_price\<close> gives 1234.56 on "R$ 1.234,56", 234.56 on "a partir de R$ 234,56"
  and nothing on "no price here". It is a total function whose only results are a price
  and \<open>None\<close>: it returns \<open>None\<close> exactly when the text is absent or empty or when every
  pattern either finds nothing or has a first match that fails to convert; in particular
  it returns \<open>None\<close> when no pattern matches.
\<close>

theorem extract_price_examples:
  "extract_price ucd_fragment (Some (ustr ''R$ 1.234,56'')) = Some 1234.56
   \<and> extract_price ucd_fragment (Some (ustr ''a partir de R$ 234,56'')) = Some 234.56
   \<and> extract_price ucd_fragment (Some (ustr ''no price here'')) = None
   \<and> (extract_price U text = None \<longleftrightarrow>
        text = None \<or> text = Some [] \<or> list_all (parse_fails U (the text)) price_patterns)
   \<and> (list_all (\<lambda>pat. findall U pat s = []) price_patterns \<longrightarrow> extract_price U (Some s) = None)"
proof -
  have 1: "extract_price ucd_fragment (Some (ustr ''R$ 1.234,56'')) = Some 1234.56"
    by code_simp
  have 2: "extract_price ucd_fragment (Some (ustr ''a partir de R$ 234,56'')) = Some 234.56"
    by code_simp
  have 3: "extract_price ucd_fragment (Some (ustr ''no price here'')) = None"
    by code_simp
  have 4: "extract_price U text = None \<longleftrightarrow>
      text = None \<or> text = Some [] \<or> list_all (parse_fails U (the text)) price_patterns"
    by (cases "text") (auto simp: try_patterns_None)
  have "list_all (parse_fails U s) price_patterns"
    if "list_all (\<lambda>pat. findall U pat s = []) price_patterns"
    using that by (simp add: list_all_iff parse_fails_def)
  then have 5: "list_all (\<lambda>pat. findall U pat s = []) price_patterns \<longrightarrow>
      extract_price U (Some s) = None"
    by (auto simp: try_patterns_None)
  from 1 2 3 4 5 show ?thesis by blast
qed

theorem extract_price_examples_witness:
  "list_all (\<lambda>pat. findall ucd_fragment pat (ustr ''no price here'') = []) price_patterns
   \<and> extract_price ucd_fragment (Some (ustr ''no price here'')) = None
   \<and> extract_price ucd_fragment (Some (ustr ''R$ 1.234,56'')) = Some 1234.56"
proof -
  have "list_all (\<lambda>pat. findall ucd_fragment pat (ustr ''no price here'') = []) price_patterns"
    by code_simp
  with extract_price_examples [of ucd_fragment "None" "ustr ''no price here''"]
  show ?thesis by blast
qed

text \<open>
  C10. Under any Unicode table in which the full stop and the comma are not decimal
  digits, \<open>extract_price\<close> returns on every text what the variant with only the first two
  patterns returns: a match of the third or fourth pattern contains a match of the first,
  whose number always converts.
\<close>

theorem extract_price_two_patterns:
  assumes "decimal U 0x2E = None" "decimal U 0x2C = None"
  shows "extract_price U text = extract_price_first_two U text"
  using try_patterns_first_two [OF assms] by (cases "text") auto

theorem extract_price_two_patterns_witness:
  "decimal ucd_fragment 0x2E = None \<and> decimal ucd_fragment 0x2C = None
   \<and> extract_price_first_two ucd_fragment (Some (ustr ''a partir de R$ 234,56'')) = Some 234.56
   \<and> findall ucd_fragment pattern_4 (ustr ''a partir de R$ 234,56'') = [ustr ''234,56'']"
proof -
  have s: "decimal ucd_fragment 0x2E = None" "decimal ucd_fragment 0x2C = None"
    by code_simp+
  have e: "extract_price ucd_fragment (Some (ustr ''a partir de R$ 234,56'')) = Some 234.56"
    by code_simp
  have f: "findall ucd_fragment pattern_4 (ustr ''a partir de R$ 234,56'') = [ustr ''234,56'']"
    by code_simp
  from extract_price_two_patterns [OF s, of "Some (ustr ''a partir de R$ 234,56'')"] s e f
  show ?thesis by simp
qed





section \<open>Properties of the deal scorer and of the mileage estimator\<close>

lemma rate_deal_quality_graded:
  "promo < market \<longrightarrow> market \<noteq> 0 \<Longrightarrow> rate_deal_quality promo market = Inr (graded promo market)"
  by (auto simp: rate_deal_quality_def graded_def Let_def)

text \<open>
  Away from the promotion price 0 the dictionary holds the scoring of the specification.
  For every promotion price other than 0 and every market price, a negative promotion
  price with the market price 0 apart (the extractor reads digits only and returns no
  negative price): the savings are the market price minus the promotion price; the
  discount percentage is the savings over the market price times 100, rounded to one
  decimal, when the market price is positive, and 0 otherwise; the deal is good iff the
  savings exceed 50 and the promotion price is below 500, both strictly; and the quality
  is RUIM (bad) if the promotion price is at least the market price, else EXCELENTE if
  the savings percentage is at least 30, MUITO_BOA (very good) if at least 15, BOA
  (good) if at least 5 and REGULAR otherwise.
\<close>

lemma deal_analysis_scored:
  assumes "promo \<noteq> 0" and "\<not> (promo < 0 \<and> market = 0)"
  shows "deal_analysis_of (Some promo) market rating =
           Inr \<lparr> current_market_price_brl = market, market_price_rating = rating,
                 has_promotion_price = True, promotion = Some (scored promo market) \<rparr>"
proof -
  have "promo < market \<longrightarrow> market \<noteq> 0"
    using assms by auto
  then have "rate_deal_quality promo market = Inr (graded promo market)"
    by (rule rate_deal_quality_graded)
  then show ?thesis
    using assms(1) by (simp add: deal_analysis_of_def Let_def scored_def)
qed

text \<open>
  The boundary of the verdict: at the promotion price 499, savings of 50 do not make a
  good deal and savings of 51 do.
\<close>

lemma deal_analysis_boundary:
  "deal_analysis_of (Some 499) 549 [] =
     Inr \<lparr> current_market_price_brl = 549, market_price_rating = [],
           has_promotion_price = True,
           promotion = Some \<lparr> promotion_price_brl = 499, savings_vs_market = 50,
                              discount_percentage = 9.1, is_good_deal = False,
                              deal_quality = BOA \<rparr> \<rparr>
   \<and> deal_analysis_of (Some 499) 550 [] =
     Inr \<lparr> current_market_price_brl = 550, market_price_rating = [],
           has_promotion_price = True,
           promotion = Some \<lparr> promotion_price_brl = 499, savings_vs_market = 51,
                              discount_percentage = 9.3, is_good_deal = True,
                              deal_quality = BOA \<rparr> \<rparr>"
  by code_simp

text \<open>
  C3. At the promotion price 0 the code departs from the claim. \<open>extract_price\<close> returns
  0 for the post with the title "Passagem para Recife por R$ 0" and an empty summary.
  The test \<open>if promo_price:\<close> is false of 0.0, so with the market price 600 the dictionary
  gets no savings, percentage, verdict and grade, although its key
  \<open>has_promotion_price\<close>, set by \<open>promo_price is not None\<close>, is true. The scoring of the
  claim there is: savings 600, discount 100.0 per cent, a good deal, grade EXCELENTE.
\<close>

theorem deal_analysis_price_zero:
  "extract_price ucd_fragment (Some (title_and_summary title_free [])) = Some 0
   \<and> deal_analysis_of (Some 0) 600 [] =
       Inr \<lparr> current_market_price_brl = 600, market_price_rating = [],
             has_promotion_price = True, promotion = None \<rparr>
   \<and> scored 0 600 =
       \<lparr> promotion_price_brl = 0, savings_vs_market = 600, discount_percentage = 100,
         is_good_deal = True, deal_quality = EXCELENTE \<rparr>"
  by code_simp






end
